theory Spec2Isabelle
  imports Main "HOL-Library.AList" "HOL-Library.Word"
begin

section \<open>Python values, exceptions and the object heap\<close>

text \<open>
  The sprite module (lib/sprite.py) links instances of class \<open>Sprite\<close> and class
  \<open>Group\<close>. An object is identified by its class and a number. A method argument is
  either one object or a Python sequence (tuple or list) of objects.
\<close>

datatype obj = Sprite nat | Group nat

datatype arg = Obj obj | Seq "obj list"

datatype exn =
    UnboundLocalError | NameError | KeyError | TypeError | AttributeError
  | ValueError | NotImplementedError | ImportError | AssertionError

text \<open>
  A Python dictionary is an association list; every value stored by \<open>Sprite\<close> and
  \<open>Group\<close> is the integer 0. Python fixes no order for \<open>keys()\<close>; here it is the
  order of the list. The heap gives each object its one dictionary: the private
  \<open>__g\<close> of a sprite, the \<open>spritedict\<close> of a group. An object that was never
  initialised has the empty dictionary.
\<close>

type_synonym dict = "(obj \<times> int) list"

type_synonym heap = "obj \<Rightarrow> dict"

text \<open>A call returns a value or raises; the heap it leaves behind survives either way.\<close>

type_synonym 'a result = "(exn + 'a) \<times> heap"

definition has_key :: "dict \<Rightarrow> obj \<Rightarrow> bool" where
  "has_key d k = (k \<in> fst ` set d)"

definition keys :: "dict \<Rightarrow> obj list" where
  "keys d = map fst d"

text \<open>\<open>d[k] = 0\<close>\<close>

definition setitem :: "obj \<Rightarrow> dict \<Rightarrow> dict" where
  "setitem k d = AList.update k 0 d"

text \<open>\<open>del d[k]\<close> raises KeyError when the key is absent.\<close>

definition delitem :: "obj \<Rightarrow> dict \<Rightarrow> exn + dict" where
  "delitem k d = (if has_key d k then Inr (AList.delete k d) else Inl KeyError)"

text \<open>
  Reading a local variable that has no value yet raises UnboundLocalError. A local is
  \<open>None\<close> until the function assigns it.
\<close>

definition read_local :: "'a option \<Rightarrow> exn + 'a" where
  "read_local v = (case v of None \<Rightarrow> Inl UnboundLocalError | Some x \<Rightarrow> Inr x)"

text \<open>
  \<open>hasattr(x, '_spritegroup')\<close>: only class \<open>Group\<close> defines the attribute; class
  \<open>Sprite\<close> and the sequence types do not. Where a method has found the attribute, its
  argument is therefore one object; the case for a sequence under that test is never taken.
\<close>

fun hasattr_spritegroup :: "arg \<Rightarrow> bool" where
  "hasattr_spritegroup (Obj (Group j)) = True"
| "hasattr_spritegroup (Obj (Sprite i)) = False"
| "hasattr_spritegroup (Seq xs) = False"

text \<open>
  \<open>for x in a\<close>: a sequence yields its elements; an instance of \<open>Sprite\<close> or
  \<open>Group\<close> has neither \<open>__iter__\<close> nor \<open>__getitem__\<close>, so iterating it raises
  TypeError.
\<close>

fun iterate :: "arg \<Rightarrow> exn + obj list" where
  "iterate (Seq xs) = Inr xs"
| "iterate (Obj x) = Inl TypeError"

text \<open>
  Truth value of an argument: a sequence is true when non-empty, a \<open>Group\<close> through its
  \<open>__nonzero__\<close> (the size of its \<open>spritedict\<close>), a \<open>Sprite\<close> always.
\<close>

fun truth :: "heap \<Rightarrow> arg \<Rightarrow> bool" where
  "truth h (Seq xs) = (xs \<noteq> [])"
| "truth h (Obj (Group j)) = (length (h (Group j)) \<noteq> 0)"
| "truth h (Obj (Sprite i)) = True"

section \<open>Classes Sprite and Group\<close>

text \<open>
  \<open>add_internal\<close> and \<open>remove_internal\<close> are called on whatever object the caller
  holds, so they dispatch on the class of the receiver.
\<close>

fun add_internal :: "obj \<Rightarrow> obj \<Rightarrow> heap \<Rightarrow> heap" where
  "add_internal (Sprite i) grp h = h(Sprite i := setitem grp (h (Sprite i)))"
| "add_internal (Group j) sprite h = h(Group j := setitem sprite (h (Group j)))"

fun remove_internal :: "obj \<Rightarrow> obj \<Rightarrow> heap \<Rightarrow> unit result" where
  "remove_internal (Sprite i) grp h =
     (case delitem grp (h (Sprite i)) of
        Inl e \<Rightarrow> (Inl e, h)
      | Inr d \<Rightarrow> (Inr (), h(Sprite i := d)))"
| "remove_internal (Group j) sprite h =
     (case delitem sprite (h (Group j)) of
        Inl e \<Rightarrow> (Inl e, h)
      | Inr d \<Rightarrow> (Inr (), h(Group j := d)))"

subsection \<open>Sprite\<close>

text \<open>The body of both branches of \<open>Sprite.add\<close> for one group.\<close>

definition Sprite_add_one :: "nat \<Rightarrow> obj \<Rightarrow> heap \<Rightarrow> heap" where
  "Sprite_add_one i grp h =
     (if \<not> has_key (h (Sprite i)) grp
      then (let h1 = add_internal grp (Sprite i) h
            in h1(Sprite i := setitem grp (h1 (Sprite i))))
      else h)"

fun Sprite_add_loop :: "nat \<Rightarrow> obj list \<Rightarrow> heap \<Rightarrow> heap" where
  "Sprite_add_loop i [] h = h"
| "Sprite_add_loop i (grp # grps) h = Sprite_add_loop i grps (Sprite_add_one i grp h)"

definition Sprite_add :: "nat \<Rightarrow> arg \<Rightarrow> heap \<Rightarrow> unit result" where
  "Sprite_add i grp h =
     (if hasattr_spritegroup grp
      then (case grp of
              Obj g \<Rightarrow> (Inr (), Sprite_add_one i g h)
            | Seq gs \<Rightarrow> (Inl AttributeError, h))
      else (case iterate grp of
              Inl e \<Rightarrow> (Inl e, h)
            | Inr grps \<Rightarrow> (Inr (), Sprite_add_loop i grps h)))"

text \<open>
  \<open>Sprite.remove\<close>. In the single-group branch the statement \<open>del self.__g[g]\<close>
  reads \<open>g\<close>, a local that only the loop of the other branch assigns.
\<close>

fun Sprite_remove_loop :: "nat \<Rightarrow> obj list \<Rightarrow> heap \<Rightarrow> unit result" where
  "Sprite_remove_loop i [] h = (Inr (), h)"
| "Sprite_remove_loop i (g # gs) h =
     (if has_key (h (Sprite i)) g
      then (case remove_internal g (Sprite i) h of
              (Inl e, h1) \<Rightarrow> (Inl e, h1)
            | (Inr u, h1) \<Rightarrow>
                (case delitem g (h1 (Sprite i)) of
                   Inl e \<Rightarrow> (Inl e, h1)
                 | Inr d \<Rightarrow> Sprite_remove_loop i gs (h1(Sprite i := d))))
      else Sprite_remove_loop i gs h)"

definition Sprite_remove :: "nat \<Rightarrow> arg \<Rightarrow> heap \<Rightarrow> unit result" where
  "Sprite_remove i grp h =
     (let g = (None :: obj option) in
      if hasattr_spritegroup grp
      then (case grp of
              Obj c \<Rightarrow>
                (if has_key (h (Sprite i)) c
                 then (case remove_internal c (Sprite i) h of
                         (Inl e, h1) \<Rightarrow> (Inl e, h1)
                       | (Inr u, h1) \<Rightarrow>
                           (case read_local g of
                              Inl e \<Rightarrow> (Inl e, h1)
                            | Inr k \<Rightarrow>
                                (case delitem k (h1 (Sprite i)) of
                                   Inl e \<Rightarrow> (Inl e, h1)
                                 | Inr d \<Rightarrow> (Inr (), h1(Sprite i := d)))))
                 else (Inr (), h))
            | Seq gs \<Rightarrow> (Inl AttributeError, h))
      else (case iterate grp of
              Inl e \<Rightarrow> (Inl e, h)
            | Inr gs \<Rightarrow> Sprite_remove_loop i gs h))"

fun Sprite_kill_loop :: "nat \<Rightarrow> obj list \<Rightarrow> heap \<Rightarrow> unit result" where
  "Sprite_kill_loop i [] h = (Inr (), h)"
| "Sprite_kill_loop i (c # cs) h =
     (case remove_internal c (Sprite i) h of
        (Inl e, h1) \<Rightarrow> (Inl e, h1)
      | (Inr u, h1) \<Rightarrow> Sprite_kill_loop i cs h1)"

definition Sprite_kill :: "nat \<Rightarrow> heap \<Rightarrow> unit result" where
  "Sprite_kill i h =
     (case Sprite_kill_loop i (keys (h (Sprite i))) h of
        (Inl e, h1) \<Rightarrow> (Inl e, h1)
      | (Inr u, h1) \<Rightarrow> (Inr (), h1(Sprite i := [])))"

definition Sprite_groups :: "nat \<Rightarrow> heap \<Rightarrow> obj list" where
  "Sprite_groups i h = keys (h (Sprite i))"


definition Sprite_init :: "nat \<Rightarrow> arg \<Rightarrow> heap \<Rightarrow> unit result" where
  "Sprite_init i grp h = Sprite_add i grp (h(Sprite i := []))"

subsection \<open>Group\<close>

definition Group_add_one :: "nat \<Rightarrow> obj \<Rightarrow> heap \<Rightarrow> heap" where
  "Group_add_one j sprite h =
     (if \<not> has_key (h (Group j)) sprite
      then add_internal sprite (Group j) (add_internal (Group j) sprite h)
      else h)"

fun Group_add_loop :: "nat \<Rightarrow> obj list \<Rightarrow> heap \<Rightarrow> heap" where
  "Group_add_loop j [] h = h"
| "Group_add_loop j (sprite # sprites) h =
     Group_add_loop j sprites
       (if \<not> has_key (h (Group j)) sprite
        then (let h1 = h(Group j := setitem sprite (h (Group j)))
              in add_internal sprite (Group j) h1)
        else h)"

definition Group_add :: "nat \<Rightarrow> arg \<Rightarrow> heap \<Rightarrow> unit result" where
  "Group_add j sprite h =
     (if hasattr_spritegroup sprite
      then (case sprite of
              Obj s \<Rightarrow> (Inr (), Group_add_one j s h)
            | Seq ss \<Rightarrow> (Inl AttributeError, h))
      else (case iterate sprite of
              Inl e \<Rightarrow> (Inl e, h)
            | Inr sprites \<Rightarrow> (Inr (), Group_add_loop j sprites h)))"

text \<open>One step of the removal that both branches of \<open>Group.remove\<close> perform.\<close>

definition Group_remove_one :: "nat \<Rightarrow> obj \<Rightarrow> heap \<Rightarrow> unit result" where
  "Group_remove_one j sprite h =
     (if has_key (h (Group j)) sprite
      then (case remove_internal (Group j) sprite h of
              (Inl e, h1) \<Rightarrow> (Inl e, h1)
            | (Inr u, h1) \<Rightarrow> remove_internal sprite (Group j) h1)
      else (Inr (), h))"

fun Group_remove_loop :: "nat \<Rightarrow> obj list \<Rightarrow> heap \<Rightarrow> unit result" where
  "Group_remove_loop j [] h = (Inr (), h)"
| "Group_remove_loop j (sprite # sprites) h =
     (case Group_remove_one j sprite h of
        (Inl e, h1) \<Rightarrow> (Inl e, h1)
      | (Inr u, h1) \<Rightarrow> Group_remove_loop j sprites h1)"

text \<open>
  \<open>Group.remove\<close> opens with \<open>hasattr(sprites, '_spritegroup')\<close>; \<open>sprites\<close> is a
  local of the function that is assigned only in the \<open>else\<close> branch below.
\<close>

definition Group_remove :: "nat \<Rightarrow> arg \<Rightarrow> heap \<Rightarrow> unit result" where
  "Group_remove j sprite h =
     (let sprites = (None :: arg option) in
      case read_local sprites of
        Inl e \<Rightarrow> (Inl e, h)
      | Inr sp \<Rightarrow>
          (if hasattr_spritegroup sp
           then (case sprite of
                   Obj s \<Rightarrow> Group_remove_one j s h
                 | Seq ss \<Rightarrow> (Inl AttributeError, h))
           else (case iterate sprite of
                   Inl e \<Rightarrow> (Inl e, h)
                 | Inr ss \<Rightarrow> Group_remove_loop j ss h)))"

text \<open>
  \<open>Group.has\<close> starts the same way. Its first branch would evaluate
  \<open>sprite in has(sprite)\<close>, membership in a truth value, which is a TypeError.
\<close>

fun Group_has_loop :: "dict \<Rightarrow> obj list \<Rightarrow> int" where
  "Group_has_loop d [] = 1"
| "Group_has_loop d (sprite # sprites) =
     (if \<not> has_key d sprite then 0 else Group_has_loop d sprites)"

definition Group_has :: "nat \<Rightarrow> arg \<Rightarrow> heap \<Rightarrow> int result" where
  "Group_has j sprite h =
     (let sprites = (None :: arg option) in
      case read_local sprites of
        Inl e \<Rightarrow> (Inl e, h)
      | Inr sp \<Rightarrow>
          (if hasattr_spritegroup sp
           then (Inl TypeError, h)
           else (case iterate sprite of
                   Inl e \<Rightarrow> (Inl e, h)
                 | Inr ss \<Rightarrow> (Inr (Group_has_loop (h (Group j)) ss), h))))"

fun Group_empty_loop :: "nat \<Rightarrow> obj list \<Rightarrow> heap \<Rightarrow> unit result" where
  "Group_empty_loop j [] h = (Inr (), h)"
| "Group_empty_loop j (s # ss) h =
     (case remove_internal (Group j) s h of
        (Inl e, h1) \<Rightarrow> (Inl e, h1)
      | (Inr u, h1) \<Rightarrow>
          (case remove_internal s (Group j) h1 of
             (Inl e, h2) \<Rightarrow> (Inl e, h2)
           | (Inr u, h2) \<Rightarrow> Group_empty_loop j ss h2))"

definition Group_empty :: "nat \<Rightarrow> heap \<Rightarrow> unit result" where
  "Group_empty j h =
     (case Group_empty_loop j (keys (h (Group j))) h of
        (Inl e, h1) \<Rightarrow> (Inl e, h1)
      | (Inr u, h1) \<Rightarrow> (Inr (), h1(Group j := [])))"


definition Group_init :: "nat \<Rightarrow> arg \<Rightarrow> heap \<Rightarrow> unit result" where
  "Group_init j sprite h =
     (let h1 = h(Group j := [])
      in if truth h1 sprite then Group_add j sprite h1 else (Inr (), h1))"

subsection \<open>Membership invariant and the operations that must keep it\<close>

definition membership_inv :: "heap \<Rightarrow> bool" where
  "membership_inv h \<longleftrightarrow>
     (\<forall>s g. has_key (h (Group g)) (Sprite s) \<longleftrightarrow> has_key (h (Sprite s)) (Group g))"

datatype operation =
    Sprite_add_op nat arg | Sprite_remove_op nat arg | Sprite_kill_op nat
  | Group_add_op nat arg | Group_remove_op nat arg | Group_empty_op nat

fun perform :: "operation \<Rightarrow> heap \<Rightarrow> unit result" where
  "perform (Sprite_add_op i a) h = Sprite_add i a h"
| "perform (Sprite_remove_op i a) h = Sprite_remove i a h"
| "perform (Sprite_kill_op i) h = Sprite_kill i h"
| "perform (Group_add_op j a) h = Group_add j a h"
| "perform (Group_remove_op j a) h = Group_remove j a h"
| "perform (Group_empty_op j) h = Group_empty j h"

definition fresh :: "heap \<Rightarrow> obj \<Rightarrow> bool" where
  "fresh h x \<longleftrightarrow> (\<forall>y. \<not> has_key (h y) x)"

definition empty_heap :: heap where
  "empty_heap = (\<lambda>x. [])"

definition linked_heap :: heap where
  "linked_heap = empty_heap(Sprite 0 := [(Group 0, 0)], Group 0 := [(Sprite 0, 0)])"


text \<open>
  A run of \<open>add\<close> calls, on sprites and on groups, in any order. A call that raises
  leaves its heap to the calls after it.
\<close>

datatype add_call = Sprite_add_call nat arg | Group_add_call nat arg

fun run_adds :: "add_call list \<Rightarrow> heap \<Rightarrow> heap" where
  "run_adds [] h = h"
| "run_adds (Sprite_add_call i a # cs) h = run_adds cs (snd (Sprite_add i a h))"
| "run_adds (Group_add_call j a # cs) h = run_adds cs (snd (Group_add j a h))"

text \<open>Every dictionary of the heap holds each key once.\<close>

definition distinct_heap :: "heap \<Rightarrow> bool" where
  "distinct_heap h \<longleftrightarrow> (\<forall>x. distinct (keys (h x)))"


subsection \<open>Collision helper\<close>












section \<open>Module surfarray: pixel buffers and arrays\<close>

text \<open>
  A Python 2 string is a list of bytes. An SDL surface is the part of \<open>SDL_Surface\<close>
  that surfarray reads: width, height, pitch (bytes per row, padding included), the
  \<open>BytesPerPixel\<close> of its format, and the pixel buffer \<open>surf.pixels\<close>.
\<close>

type_synonym byte = "8 word"

record surface =
  surf_w :: int
  surf_h :: int
  surf_pitch :: int
  surf_BytesPerPixel :: int
  surf_pixels :: "byte list"

text \<open>
  The array package in use, the module global \<open>_array\<close>: \<open>None\<close> when no package is
  set; \<open>other_module\<close> is a package whose \<open>__name__\<close> is none of the three that
  surfarray knows.
\<close>

datatype array_module = numpy | numarray | Numeric | other_module

datatype typecode = UInt8 | UInt16 | UInt32

fun itemsize_of :: "typecode \<Rightarrow> int" where
  "itemsize_of UInt8 = 1"
| "itemsize_of UInt16 = 2"
| "itemsize_of UInt32 = 4"

text \<open>
  What surfarray hands to and reads from an array object: its shape, its strides, its
  element type and the string its data was built from. The array packages themselves
  are outside the repository; \<open>fromstring\<close> followed by \<open>reshape\<close> (or \<open>resize\<close>)
  and the assignment of the strides is taken to yield the array so described.
\<close>

record ndarray =
  arr_shape :: "int list"
  arr_strides :: "int list"
  arr_typecode :: typecode
  arr_data :: "byte list"

subsection \<open>Regular expressions and strings\<close>

text \<open>
  \<open>re.compile('.' * n, flags=re.DOTALL).findall(data)\<close>: the successive
  non-overlapping matches of \<open>n\<close> arbitrary characters, left to right; a shorter
  remainder is dropped. The empty pattern matches once at every position.
\<close>

function findall_dots :: "nat \<Rightarrow> 'a list \<Rightarrow> 'a list list" where
  "findall_dots n xs =
     (if n = 0 then replicate (length xs + 1) []
      else if length xs < n then []
      else take n xs # findall_dots n (drop n xs))"
  by pat_completeness auto
termination
  by (relation "measure (\<lambda>(n, xs). length xs)") auto

text \<open>
  A pattern with one group returns the text of the group for every match:
  \<open>'(' + '.' * a + ')' + '.' * b\<close> and \<open>'.' * a + '(' + '.' * b + ')'\<close>.
\<close>

definition findall_group_first :: "nat \<Rightarrow> nat \<Rightarrow> 'a list \<Rightarrow> 'a list list" where
  "findall_group_first a b xs = map (take a) (findall_dots (a + b) xs)"

definition findall_group_last :: "nat \<Rightarrow> nat \<Rightarrow> 'a list \<Rightarrow> 'a list list" where
  "findall_group_last a b xs = map (drop a) (findall_dots (a + b) xs)"

text \<open>\<open>sep.join(parts)\<close>\<close>

fun join :: "'a list \<Rightarrow> 'a list list \<Rightarrow> 'a list" where
  "join sep [] = []"
| "join sep [x] = x"
| "join sep (x # y # ys) = x @ sep @ join sep (y # ys)"

text \<open>\<open>'.' * k\<close> and \<open>'\0' * k\<close>: a negative count gives the empty string.\<close>

definition repeat_count :: "int \<Rightarrow> nat" where
  "repeat_count k = nat k"

subsection \<open>array2d\<close>

definition check_array :: "array_module option \<Rightarrow> exn + unit" where
  "check_array m = (case m of None \<Rightarrow> Inl ImportError | Some a \<Rightarrow> Inr ())"

text \<open>
  The chain \<open>if bpp == 1: ... elif bpp == 4\<close>: element type, string and bytes per
  pixel of the array. \<open>lil\<close> is \<open>SDL_BYTEORDER == SDL_LIL_ENDIAN\<close>, a constant of the
  SDL binding.
\<close>

definition widen :: "bool \<Rightarrow> int \<Rightarrow> byte list \<Rightarrow> typecode \<times> byte list \<times> int" where
  "widen lil bpp data =
     (if bpp = 1 then (UInt8, data, bpp)
      else if bpp = 2 then (UInt16, data, bpp)
      else if bpp = 3 then
        (let data1 = join [0] (findall_dots 3 data);
             data2 = (if lil then data1 @ [0] else [0] @ data1)
         in (UInt32, data2, 4))
      else (UInt32, data, bpp))"

definition array2d :: "array_module option \<Rightarrow> bool \<Rightarrow> surface \<Rightarrow> exn + ndarray" where
  "array2d array_mod lil surf =
     (case check_array array_mod of
        Inl e \<Rightarrow> Inl e
      | Inr u \<Rightarrow>
          (let bpp = surf_BytesPerPixel surf in
           if bpp \<le> 0 \<or> bpp > 4 then Inl ValueError
           else
             (let data = surf_pixels surf;
                  pitchdiff = surf_pitch surf - surf_w surf * bpp;
                  data = (if pitchdiff > 0
                          then concat (findall_group_first (repeat_count (surf_w surf) * repeat_count bpp)
                                         (repeat_count pitchdiff) data)
                          else data);
                  (t, data, bpp) = widen lil bpp data;
                  shape = [surf_w surf, surf_h surf];
                  fake_strides = [bpp, bpp * surf_w surf]
              in if int (length data) \<noteq> bpp * surf_w surf * surf_h surf then Inl AssertionError
                 else if array_mod = Some numpy \<or> array_mod = Some numarray
                         \<or> array_mod = Some Numeric
                 then Inr \<lparr>arr_shape = shape, arr_strides = fake_strides,
                           arr_typecode = t, arr_data = data\<rparr>
                 else Inl UnboundLocalError)))"

subsection \<open>blit_array\<close>

text \<open>
  \<open>memmove(surf.pixels.ptr, data, len(data))\<close> overwrites the start of the pixel
  buffer. A string longer than the buffer would be written past its end; that is no
  Python exception, and the model stops there with \<open>None\<close>.
\<close>

definition memmove :: "byte list \<Rightarrow> byte list \<Rightarrow> byte list option" where
  "memmove buf data =
     (if length data \<le> length buf then Some (data @ drop (length data) buf) else None)"

text \<open>
  The trimming or padding of each array element to the surface's bytes per pixel, then
  the padding of each row to the pitch.
\<close>

definition fit_itemsize :: "bool \<Rightarrow> int \<Rightarrow> int \<Rightarrow> byte list \<Rightarrow> byte list" where
  "fit_itemsize lil itemsize bpp data =
     (if itemsize > bpp then
        (if lil
         then concat (findall_group_first (repeat_count bpp) (repeat_count (itemsize - bpp)) data)
         else concat (findall_group_last (repeat_count (itemsize - bpp)) (repeat_count bpp) data))
      else if itemsize < bpp then
        (let pad = replicate (repeat_count (bpp - itemsize)) 0;
             pixels = findall_dots (repeat_count itemsize) data;
             data1 = join pad pixels
         in if lil then data1 @ pad else pad @ data1)
      else data)"

definition fit_pitch :: "surface \<Rightarrow> int \<Rightarrow> byte list \<Rightarrow> byte list" where
  "fit_pitch surf bpp data =
     (let pitchdiff = surf_pitch surf - surf_w surf * bpp in
      if pitchdiff > 0 then
        (let pad = replicate (repeat_count pitchdiff) 0;
             rows = findall_dots (repeat_count (surf_w surf) * repeat_count bpp) data
         in join pad rows @ pad)
      else data)"

text \<open>
  \<open>blit_array\<close>. The method \<open>array.tostring()\<close> belongs to the array package and is a
  parameter. The result pairs the outcome with the surface as the call leaves it;
  the outcome \<open>Inr None\<close> is the write past the buffer.
\<close>

definition blit_array ::
  "array_module option \<Rightarrow> bool \<Rightarrow> (ndarray \<Rightarrow> byte list) \<Rightarrow> surface \<Rightarrow> ndarray \<Rightarrow>
     (exn + unit option) \<times> surface" where
  "blit_array array_mod lil tostring surf array =
     (case check_array array_mod of
        Inl e \<Rightarrow> (Inl e, surf)
      | Inr u \<Rightarrow>
          (let bpp = surf_BytesPerPixel surf;
               shape = arr_shape array
           in if \<not> (length shape = 2 \<or> (length shape = 3 \<and> shape ! 2 = 3))
              then (Inl ValueError, surf)
              else if length shape = 3 then (Inl NotImplementedError, surf)
              else if bpp \<le> 0 \<or> bpp > 4 then (Inl ValueError, surf)
              else if surf_w surf \<noteq> shape ! 0 \<or> surf_h surf \<noteq> shape ! 1
              then (Inl ValueError, surf)
              else
                (let data = tostring array;
                     itemsize = itemsize_of (arr_typecode array);
                     data = fit_itemsize lil itemsize bpp data;
                     data = fit_pitch surf bpp data
                 in case memmove (surf_pixels surf) data of
                      None \<Rightarrow> (Inr None, surf)
                    | Some px \<Rightarrow> (Inr (Some ()), surf\<lparr>surf_pixels := px\<rparr>))))"

subsection \<open>The stated layout of the array\<close>

text \<open>
  A surface as SDL makes it: no negative size, rows of \<open>pitch\<close> bytes that hold at
  least the \<open>w\<close> pixels, and a buffer of \<open>h\<close> rows.
\<close>

definition surface_ok :: "surface \<Rightarrow> bool" where
  "surface_ok surf \<longleftrightarrow>
     0 \<le> surf_w surf \<and> 0 \<le> surf_h surf
     \<and> surf_w surf * surf_BytesPerPixel surf \<le> surf_pitch surf
     \<and> int (length (surf_pixels surf)) = surf_pitch surf * surf_h surf"

text \<open>The pixel bytes with the row padding removed: of row \<open>y\<close>, the first \<open>w * bpp\<close> bytes.\<close>

definition unpadded_rows :: "surface \<Rightarrow> byte list" where
  "unpadded_rows surf =
     concat (map (\<lambda>y. take (nat (surf_w surf * surf_BytesPerPixel surf))
                          (drop (y * nat (surf_pitch surf)) (surf_pixels surf)))
                 [0..<nat (surf_h surf)])"

text \<open>
  Three-byte pixels widened to four: one zero byte per pixel, after the three bytes on
  little-endian byte order and before them on big-endian.
\<close>

definition zero_extended :: "bool \<Rightarrow> byte list \<Rightarrow> byte list" where
  "zero_extended lil d =
     concat (map (\<lambda>k. let p = take 3 (drop (k * 3) d) in if lil then p @ [0] else 0 # p)
                 [0..<length d div 3])"

definition array_bpp :: "int \<Rightarrow> int" where
  "array_bpp bpp = (if bpp = 3 then 4 else bpp)"

definition array_typecode :: "int \<Rightarrow> typecode" where
  "array_typecode bpp = (if bpp = 1 then UInt8 else if bpp = 2 then UInt16 else UInt32)"

definition array_bytes :: "bool \<Rightarrow> surface \<Rightarrow> byte list" where
  "array_bytes lil surf =
     (if surf_BytesPerPixel surf = 3 then zero_extended lil (unpadded_rows surf)
      else unpadded_rows surf)"

subsection \<open>Sample surfaces and arrays\<close>

text \<open>
  A one-pixel 24-bit surface (SDL rounds the pitch up to 4 bytes), a one-pixel 32-bit
  surface, a 24-bit surface without pixels, and surfaces whose format has 0 and 5
  bytes per pixel.
\<close>

definition tiny24 :: surface where
  "tiny24 = \<lparr>surf_w = 1, surf_h = 1, surf_pitch = 4, surf_BytesPerPixel = 3,
              surf_pixels = [1, 2, 3, 9]\<rparr>"

definition tiny32 :: surface where
  "tiny32 = \<lparr>surf_w = 1, surf_h = 1, surf_pitch = 4, surf_BytesPerPixel = 4,
              surf_pixels = [0, 0, 0, 0]\<rparr>"

definition empty24 :: surface where
  "empty24 = \<lparr>surf_w = 0, surf_h = 0, surf_pitch = 0, surf_BytesPerPixel = 3,
               surf_pixels = []\<rparr>"

definition depth0 :: surface where
  "depth0 = \<lparr>surf_w = 1, surf_h = 1, surf_pitch = 4, surf_BytesPerPixel = 0,
              surf_pixels = [0, 0, 0, 0]\<rparr>"

definition depth5 :: surface where
  "depth5 = \<lparr>surf_w = 1, surf_h = 1, surf_pitch = 8, surf_BytesPerPixel = 5,
              surf_pixels = [0, 0, 0, 0, 0, 0, 0, 0]\<rparr>"

text \<open>Arrays of shape (1, 1, 4), (1, 1, 3), (1,) and (2, 1).\<close>

definition arr_114 :: ndarray where
  "arr_114 = \<lparr>arr_shape = [1, 1, 4], arr_strides = [4, 4, 1], arr_typecode = UInt8,
               arr_data = [1, 2, 3, 4]\<rparr>"

definition arr_113 :: ndarray where
  "arr_113 = \<lparr>arr_shape = [1, 1, 3], arr_strides = [3, 3, 1], arr_typecode = UInt8,
               arr_data = [1, 2, 3]\<rparr>"

definition arr_1 :: ndarray where
  "arr_1 = \<lparr>arr_shape = [1], arr_strides = [4], arr_typecode = UInt32,
             arr_data = [1, 2, 3, 4]\<rparr>"

definition arr_21 :: ndarray where
  "arr_21 = \<lparr>arr_shape = [2, 1], arr_strides = [4, 8], arr_typecode = UInt32,
              arr_data = [1, 2, 3, 4, 5, 6, 7, 8]\<rparr>"

subsection \<open>The method tostring and the round trip\<close>

text \<open>
  Modelled from the documentation of the array packages, which are not part of the
  repository: \<open>array.tostring()\<close> returns the elements of the array in index order,
  the last index varying fastest, whatever the strides are. Element \<open>[i][j]\<close> of a
  2-dimensional array lies \<open>i * strides[0] + j * strides[1]\<close> bytes into its data.
\<close>

definition tostring_by_index :: "ndarray \<Rightarrow> byte list" where
  "tostring_by_index a =
     concat (map (\<lambda>i. concat (map (\<lambda>j.
         take (nat (itemsize_of (arr_typecode a)))
           (drop (nat (int i * arr_strides a ! 0 + int j * arr_strides a ! 1)) (arr_data a)))
       [0..<nat (arr_shape a ! 1)])) [0..<nat (arr_shape a ! 0)])"

text \<open>
  For comparison, a \<open>tostring\<close> that ignored the strides and returned the data as it
  lies in memory.
\<close>

definition tostring_memory :: "ndarray \<Rightarrow> byte list" where
  "tostring_memory a = arr_data a"

text \<open>\<open>blit_array(surface, array2d(surface))\<close>\<close>

definition round_trip ::
  "array_module option \<Rightarrow> bool \<Rightarrow> (ndarray \<Rightarrow> byte list) \<Rightarrow> surface \<Rightarrow>
     (exn + unit option) \<times> surface" where
  "round_trip array_mod lil tostring surf =
     (case array2d array_mod lil surf of
        Inl e \<Rightarrow> (Inl e, surf)
      | Inr a \<Rightarrow> blit_array array_mod lil tostring surf a)"

text \<open>A 2 x 2 surface with one byte per pixel and a pitch of 4.\<close>

definition two_by_two :: surface where
  "two_by_two = \<lparr>surf_w = 2, surf_h = 2, surf_pitch = 4, surf_BytesPerPixel = 1,
                  surf_pixels = [1, 2, 0, 0, 3, 4, 0, 0]\<rparr>"

definition two_by_two_array :: ndarray where
  "two_by_two_array = \<lparr>arr_shape = [2, 2], arr_strides = [1, 2], arr_typecode = UInt8,
                        arr_data = [1, 2, 3, 4]\<rparr>"

section \<open>Module UserRect\<close>

text \<open>
  A name used in a function body and bound nowhere in it is looked up among the names
  of the module, then among the builtins; a name found in neither raises NameError.
  UserRect.py binds, besides the names every module has, \<open>Rect\<close> (its one import) and
  \<open>UserRect\<close> (its one class).
\<close>

definition module_names :: "string list" where
  "module_names =
     [''__builtins__'', ''__doc__'', ''__file__'', ''__name__'', ''__package__'',
      ''Rect'', ''UserRect'']"

text \<open>The builtin names of Python 2, up to version 2.7.\<close>

definition builtin_names :: "string list" where
  "builtin_names =
     [''abs'', ''all'', ''any'', ''apply'', ''basestring'', ''bin'', ''bool'', ''buffer'',
      ''bytearray'', ''bytes'', ''callable'', ''chr'', ''classmethod'', ''cmp'', ''coerce'',
      ''compile'', ''complex'', ''copyright'', ''credits'', ''delattr'', ''dict'', ''dir'',
      ''divmod'', ''enumerate'', ''eval'', ''execfile'', ''exit'', ''file'', ''filter'',
      ''float'', ''format'', ''frozenset'', ''getattr'', ''globals'', ''hasattr'', ''hash'',
      ''help'', ''hex'', ''id'', ''input'', ''int'', ''intern'', ''isinstance'',
      ''issubclass'', ''iter'', ''len'', ''license'', ''list'', ''locals'', ''long'', ''map'',
      ''max'', ''memoryview'', ''min'', ''next'', ''object'', ''oct'', ''open'', ''ord'',
      ''pow'', ''print'', ''property'', ''quit'', ''range'', ''raw_input'', ''reduce'',
      ''reload'', ''repr'', ''reversed'', ''round'', ''set'', ''setattr'', ''slice'',
      ''sorted'', ''staticmethod'', ''str'', ''sum'', ''super'', ''tuple'', ''type'',
      ''unichr'', ''unicode'', ''vars'', ''xrange'', ''zip'', ''__import__'',
      ''True'', ''False'', ''None'', ''Ellipsis'', ''NotImplemented'', ''__debug__'',
      ''__doc__'', ''__name__'', ''__package__'',
      ''ArithmeticError'', ''AssertionError'', ''AttributeError'', ''BaseException'',
      ''BufferError'', ''BytesWarning'', ''DeprecationWarning'', ''EOFError'',
      ''EnvironmentError'', ''Exception'', ''FloatingPointError'', ''FutureWarning'',
      ''GeneratorExit'', ''IOError'', ''ImportError'', ''ImportWarning'',
      ''IndentationError'', ''IndexError'', ''KeyError'', ''KeyboardInterrupt'',
      ''LookupError'', ''MemoryError'', ''NameError'', ''NotImplementedError'', ''OSError'',
      ''OverflowError'', ''PendingDeprecationWarning'', ''ReferenceError'', ''RuntimeError'',
      ''RuntimeWarning'', ''StandardError'', ''StopIteration'', ''SyntaxError'',
      ''SyntaxWarning'', ''SystemError'', ''SystemExit'', ''TabError'', ''TypeError'',
      ''UnboundLocalError'', ''UnicodeDecodeError'', ''UnicodeEncodeError'',
      ''UnicodeError'', ''UnicodeTranslateError'', ''UnicodeWarning'', ''UserWarning'',
      ''ValueError'', ''Warning'', ''ZeroDivisionError'']"

definition load_global :: "string \<Rightarrow> exn + string" where
  "load_global name =
     (if name \<in> set module_names \<or> name \<in> set builtin_names then Inr name
      else Inl NameError)"

text \<open>
  \<open>UserRect.__nonzero__\<close> is \<open>return nonzero(self.rect)\<close>: the callee is loaded by
  name before its argument is evaluated. What calling a global that was found does is
  the parameter \<open>call\<close>; \<open>rect\<close> is the wrapped \<open>Rect\<close>.
\<close>

definition UserRect_nonzero :: "(string \<Rightarrow> 'r \<Rightarrow> exn + bool) \<Rightarrow> 'r \<Rightarrow> exn + bool" where
  "UserRect_nonzero call rect =
     (case load_global ''nonzero'' of
        Inl e \<Rightarrow> Inl e
      | Inr f \<Rightarrow> call f rect)"

subsection \<open>Instances of UserRect\<close>

text \<open>
  \<open>UserRect\<close> is a classic class. Its \<open>__init__\<close> stores the wrapped \<open>Rect\<close> under
  \<open>'rect'\<close> in the instance \<open>__dict__\<close> and then copies every attribute that
  \<open>dir(self.rect)\<close> names into the same dictionary. The class \<open>Rect\<close> is outside the
  repository: the names \<open>dir\<close> gives for a rectangle are the parameter \<open>dir_rect\<close>,
  and a copied attribute is kept by its name.
\<close>

datatype attr_value = the_rect | rect_attr string

record 'r user_rect =
  inst_rect :: 'r
  inst_dict :: "(string \<times> attr_value) list"

fun copy_attrs :: "string list \<Rightarrow> (string \<times> attr_value) list \<Rightarrow> (string \<times> attr_value) list" where
  "copy_attrs [] d = d"
| "copy_attrs (a # as) d = copy_attrs as (AList.update a (rect_attr a) d)"

definition UserRect_init :: "('r \<Rightarrow> string list) \<Rightarrow> 'r \<Rightarrow> 'r user_rect" where
  "UserRect_init dir_rect r =
     \<lparr>inst_rect = r, inst_dict = copy_attrs (dir_rect r) [(''rect'', the_rect)]\<rparr>"

text \<open>
  Truth-testing a classic instance looks \<open>__nonzero__\<close> up as an attribute of the
  instance: first in the instance \<open>__dict__\<close>, then in the class. An entry copied from
  the rectangle is the rectangle's own bound method, whose result is the parameter
  \<open>rect_nonzero\<close>; the rectangle itself is not callable. Without an entry, the method
  of the class runs.
\<close>

definition UserRect_truth ::
  "(string \<Rightarrow> 'r \<Rightarrow> exn + bool) \<Rightarrow> ('r \<Rightarrow> exn + bool) \<Rightarrow> 'r user_rect \<Rightarrow> exn + bool" where
  "UserRect_truth call rect_nonzero inst =
     (case map_of (inst_dict inst) ''__nonzero__'' of
        Some v \<Rightarrow>
          (case v of
             rect_attr a \<Rightarrow> rect_nonzero (inst_rect inst)
           | the_rect \<Rightarrow> Inl TypeError)
      | None \<Rightarrow> UserRect_nonzero call (inst_rect inst))"

text \<open>
  A sample rectangle type: \<open>(x, y, w, h)\<close>, true when it has a width and a height,
  with \<open>__nonzero__\<close> among the names of \<open>dir\<close>.
\<close>

definition sample_dir :: "int \<times> int \<times> int \<times> int \<Rightarrow> string list" where
  "sample_dir r = [''__nonzero__'', ''colliderect'', ''h'', ''w'', ''x'', ''y'']"

fun sample_nonzero :: "int \<times> int \<times> int \<times> int \<Rightarrow> exn + bool" where
  "sample_nonzero (x, y, w, h) = Inr (w \<noteq> 0 \<and> h \<noteq> 0)"

definition no_call :: "string \<Rightarrow> int \<times> int \<times> int \<times> int \<Rightarrow> exn + bool" where
  "no_call f r = Inl TypeError"

section \<open>Properties of the sprite module\<close>

lemma has_key_setitem: "has_key (setitem k d) x \<longleftrightarrow> x = k \<or> has_key d x"
  by (auto simp: has_key_def setitem_def dom_update)

lemma has_key_delitem:
  "delitem k d = Inr d' \<Longrightarrow> has_key d' x \<longleftrightarrow> has_key d x \<and> x \<noteq> k"
proof -
  assume a: "delitem k d = Inr d'"
  then have d': "d' = AList.delete k d" by (auto simp: delitem_def split: if_splits)
  have "set (map fst d') = set (map fst d) - {k}" unfolding d' delete_keys by simp
  then show ?thesis by (auto simp: has_key_def)
qed

lemma has_key_add_internal:
  "has_key (add_internal a k h b) x \<longleftrightarrow> (a = b \<and> x = k) \<or> has_key (h b) x"
  by (cases a) (auto simp: has_key_setitem)

lemma has_key_remove_internal:
  "remove_internal a k h = (Inr u, h') \<Longrightarrow>
     has_key (h' b) x \<longleftrightarrow> has_key (h b) x \<and> \<not> (a = b \<and> x = k)"
  by (cases a) (auto simp: has_key_delitem split: sum.splits if_splits)

lemma has_key_Nil: "\<not> has_key [] x" by (simp add: has_key_def)

lemma inv_Sprite_add_one: "membership_inv h \<Longrightarrow> membership_inv (Sprite_add_one i g h)"
  unfolding membership_inv_def Sprite_add_one_def
  by (auto simp: Let_def has_key_setitem has_key_add_internal)

lemma inv_Sprite_add_loop: "membership_inv h \<Longrightarrow> membership_inv (Sprite_add_loop i gs h)"
  by (induction gs arbitrary: h) (auto simp: inv_Sprite_add_one)

lemma inv_Group_add_one: "membership_inv h \<Longrightarrow> membership_inv (Group_add_one j s h)"
  unfolding membership_inv_def Group_add_one_def
  by (auto simp: Let_def has_key_setitem has_key_add_internal)

lemma Group_add_loop_Cons: "Group_add_loop j (s # ss) h = Group_add_loop j ss (Group_add_one j s h)"
  by (simp add: Group_add_one_def Let_def)

lemma inv_Group_add_loop: "membership_inv h \<Longrightarrow> membership_inv (Group_add_loop j ss h)"
  by (induction ss arbitrary: h) (auto simp: inv_Group_add_one Group_add_loop_Cons simp del: Group_add_loop.simps(2))


lemma Sprite_remove_loop_keys:
  "Sprite_remove_loop i gs h = (Inr u, h') \<Longrightarrow>
     has_key (h' b) x \<longleftrightarrow>
       has_key (h b) x \<and> \<not> (b \<in> set gs \<and> x = Sprite i \<and> has_key (h (Sprite i)) b)
                     \<and> \<not> (b = Sprite i \<and> x \<in> set gs)"
proof (induction gs arbitrary: h)
  case Nil
  then show ?case by simp
next
  case (Cons g gs)
  show ?case
  proof (cases "has_key (h (Sprite i)) g")
    case False
    with Cons.prems have "Sprite_remove_loop i gs h = (Inr u, h')" by simp
    from Cons.IH[OF this] False show ?thesis by auto
  next
    case True
    with Cons.prems obtain h1 d where
      r: "remove_internal g (Sprite i) h = (Inr (), h1)" and
      d: "delitem g (h1 (Sprite i)) = Inr d" and
      l: "Sprite_remove_loop i gs (h1(Sprite i := d)) = (Inr u, h')"
      by (auto simp del: remove_internal.simps split: prod.splits sum.splits)
    note k1 = has_key_remove_internal[OF r]
    note k2 = has_key_delitem[OF d]
    have h2: "has_key ((h1(Sprite i := d)) c) y \<longleftrightarrow>
        has_key (h c) y \<and> \<not> (g = c \<and> y = Sprite i) \<and> \<not> (c = Sprite i \<and> y = g)" for c y
      by (auto simp: k1 k2)
    show ?thesis unfolding Cons.IH[OF l] h2 using True by auto
  qed
qed

lemma Sprite_kill_loop_keys:
  "Sprite_kill_loop i cs h = (Inr u, h') \<Longrightarrow>
     has_key (h' b) x \<longleftrightarrow> has_key (h b) x \<and> \<not> (b \<in> set cs \<and> x = Sprite i)"
proof (induction cs arbitrary: h)
  case Nil
  then show ?case by simp
next
  case (Cons c cs)
  from Cons.prems obtain h1 where
    r: "remove_internal c (Sprite i) h = (Inr (), h1)" and
    l: "Sprite_kill_loop i cs h1 = (Inr u, h')"
    by (auto simp del: remove_internal.simps split: prod.splits sum.splits)
  show ?case unfolding Cons.IH[OF l] has_key_remove_internal[OF r] by auto
qed

lemma Group_empty_loop_keys:
  "Group_empty_loop j ss h = (Inr u, h') \<Longrightarrow>
     has_key (h' b) x \<longleftrightarrow>
       has_key (h b) x \<and> \<not> (b = Group j \<and> x \<in> set ss) \<and> \<not> (b \<in> set ss \<and> x = Group j)"
proof (induction ss arbitrary: h)
  case Nil
  then show ?case by simp
next
  case (Cons s ss)
  from Cons.prems obtain h1 h2 where
    r1: "remove_internal (Group j) s h = (Inr (), h1)" and
    r2: "remove_internal s (Group j) h1 = (Inr (), h2)" and
    l: "Group_empty_loop j ss h2 = (Inr u, h')"
    by (auto simp del: remove_internal.simps split: prod.splits sum.splits)
  show ?case
    unfolding Cons.IH[OF l] has_key_remove_internal[OF r2] has_key_remove_internal[OF r1]
    by auto
qed

lemma has_key_keys: "x \<in> set (keys d) \<longleftrightarrow> has_key d x"
  by (simp add: has_key_def keys_def)

lemma inv_Sprite_remove_loop:
  "membership_inv h \<Longrightarrow> Sprite_remove_loop i gs h = (Inr u, h') \<Longrightarrow> membership_inv h'"
  unfolding membership_inv_def
  by (simp add: Sprite_remove_loop_keys) blast

lemma inv_Sprite_kill:
  assumes "membership_inv h" and "Sprite_kill i h = (Inr u, h')"
  shows "membership_inv h'"
proof -
  from assms(2) obtain h1 where
    l: "Sprite_kill_loop i (keys (h (Sprite i))) h = (Inr (), h1)" and
    h': "h' = h1(Sprite i := [])"
    by (auto simp: Sprite_kill_def split: prod.splits sum.splits)
  show ?thesis using assms(1)
    unfolding membership_inv_def h'
    by (auto simp: Sprite_kill_loop_keys[OF l] has_key_keys has_key_Nil)
qed

lemma inv_Group_empty:
  assumes "membership_inv h" and "Group_empty j h = (Inr u, h')"
  shows "membership_inv h'"
proof -
  from assms(2) obtain h1 where
    l: "Group_empty_loop j (keys (h (Group j))) h = (Inr (), h1)" and
    h': "h' = h1(Group j := [])"
    by (auto simp: Group_empty_def split: prod.splits sum.splits)
  show ?thesis using assms(1)
    unfolding membership_inv_def h'
    by (auto simp: Group_empty_loop_keys[OF l] has_key_keys has_key_Nil)
qed


lemma inv_Sprite_add:
  "membership_inv h \<Longrightarrow> Sprite_add i a h = (Inr u, h') \<Longrightarrow> membership_inv h'"
  by (cases a) (auto simp: Sprite_add_def inv_Sprite_add_one inv_Sprite_add_loop
        split: if_splits sum.splits)

lemma inv_Group_add:
  "membership_inv h \<Longrightarrow> Group_add j a h = (Inr u, h') \<Longrightarrow> membership_inv h'"
  by (cases a) (auto simp: Group_add_def inv_Group_add_one inv_Group_add_loop
        split: if_splits sum.splits)

lemma Sprite_remove_single:
  "Sprite_remove i (Obj (Group j)) h =
     (if has_key (h (Sprite i)) (Group j)
      then (case remove_internal (Group j) (Sprite i) h of
              (Inl e, h1) \<Rightarrow> (Inl e, h1)
            | (Inr u, h1) \<Rightarrow> (Inl UnboundLocalError, h1))
      else (Inr (), h))"
  by (simp add: Sprite_remove_def read_local_def split: prod.splits sum.splits)

lemma inv_Sprite_remove:
  assumes "membership_inv h" and "Sprite_remove i a h = (Inr u, h')"
  shows "membership_inv h'"
proof (cases a)
  case (Obj x)
  show ?thesis
  proof (cases x)
    case (Sprite k)
    with Obj assms(2) show ?thesis by (simp add: Sprite_remove_def)
  next
    case (Group j)
    with Obj assms(2) have "h' = h"
      by (auto simp: Sprite_remove_single simp del: remove_internal.simps
            split: if_splits prod.splits sum.splits)
    with assms(1) show ?thesis by simp
  qed
next
  case (Seq gs)
  with assms(2) have "Sprite_remove_loop i gs h = (Inr u, h')"
    by (simp add: Sprite_remove_def)
  from inv_Sprite_remove_loop[OF assms(1) this] show ?thesis .
qed

lemma Group_remove_raises: "Group_remove j a h = (Inl UnboundLocalError, h)"
  by (simp add: Group_remove_def read_local_def)

lemma inv_perform:
  "membership_inv h \<Longrightarrow> perform opn h = (Inr u, h') \<Longrightarrow> membership_inv h'"
  by (cases opn)
     (auto simp: Group_remove_raises
           dest: inv_Sprite_add inv_Sprite_remove inv_Sprite_kill inv_Group_add inv_Group_empty)

lemma inv_empty_heap: "membership_inv empty_heap"
  by (simp add: membership_inv_def empty_heap_def has_key_Nil)

lemma Sprite_init_default: "Sprite_init i (Seq []) h = (Inr (), h(Sprite i := []))"
  by (simp add: Sprite_init_def Sprite_add_def)

lemma Group_init_default: "Group_init j (Seq []) h = (Inr (), h(Group j := []))"
  by (simp add: Group_init_def)

lemma inv_reset:
  "membership_inv h \<Longrightarrow> fresh h x \<Longrightarrow> membership_inv (h(x := []))"
  unfolding membership_inv_def fresh_def
  by (auto simp: has_key_Nil)

text \<open>
  Calls that return normally keep the mutual-membership invariant, and it holds in the
  empty heap and after the default \<open>__init__\<close> of a new object. A call that raises is
  not covered: see the theorem after this one.
\<close>

lemma membership_inv_kept_on_return:
  assumes "membership_inv h"
  shows "membership_inv empty_heap
       \<and> (fresh h (Sprite i) \<longrightarrow>
            (\<exists>h'. Sprite_init i (Seq []) h = (Inr (), h') \<and> h' (Sprite i) = [] \<and> membership_inv h'))
       \<and> (fresh h (Group j) \<longrightarrow>
            (\<exists>h'. Group_init j (Seq []) h = (Inr (), h') \<and> h' (Group j) = [] \<and> membership_inv h'))
       \<and> (\<forall>h'. perform opn h = (Inr (), h') \<longrightarrow> membership_inv h')"
  using assms
  by (auto simp: inv_empty_heap Sprite_init_default Group_init_default inv_reset
           dest: inv_perform)

lemma inv_linked_heap: "membership_inv linked_heap"
  by (auto simp: membership_inv_def linked_heap_def empty_heap_def has_key_def)

text \<open>
  Claim C1 fails on the code. In a heap that satisfies the mutual-membership
  invariant, with sprite 0 a member of group 0, \<open>s.remove(g)\<close> takes the sprite out
  of \<open>g.spritedict\<close> and then raises UnboundLocalError, with \<open>g\<close> still a key of the
  sprite's dictionary: the invariant is false in the heap the call leaves behind. It
  stays false after a later \<open>s.add(g2)\<close> that returns normally.
\<close>

theorem membership_invariant_broken:
  "membership_inv linked_heap
   \<and> perform (Sprite_remove_op 0 (Obj (Group 0))) linked_heap
       = (Inl UnboundLocalError, linked_heap(Group 0 := []))
   \<and> \<not> membership_inv (linked_heap(Group 0 := []))
   \<and> perform (Sprite_add_op 0 (Obj (Group 1))) (linked_heap(Group 0 := []))
       = (Inr (), linked_heap(Group 0 := [], Group 1 := [(Sprite 0, 0)],
                              Sprite 0 := [(Group 0, 0), (Group 1, 0)]))
   \<and> \<not> membership_inv (linked_heap(Group 0 := [], Group 1 := [(Sprite 0, 0)],
                                     Sprite 0 := [(Group 0, 0), (Group 1, 0)]))"
proof -
  have r: "perform (Sprite_remove_op 0 (Obj (Group 0))) linked_heap
       = (Inl UnboundLocalError, linked_heap(Group 0 := []))"
    by (simp add: Sprite_remove_single linked_heap_def empty_heap_def delitem_def has_key_def)
  have n1: "\<not> membership_inv (linked_heap(Group 0 := []))"
    unfolding membership_inv_def
    by (auto simp: linked_heap_def empty_heap_def has_key_def intro!: exI[of _ 0])
  have a: "perform (Sprite_add_op 0 (Obj (Group 1))) (linked_heap(Group 0 := []))
       = (Inr (), linked_heap(Group 0 := [], Group 1 := [(Sprite 0, 0)],
                              Sprite 0 := [(Group 0, 0), (Group 1, 0)]))"
    by (auto simp: Sprite_add_def Sprite_add_one_def linked_heap_def empty_heap_def has_key_def
          setitem_def Let_def fun_eq_iff)
  have n2: "\<not> membership_inv (linked_heap(Group 0 := [], Group 1 := [(Sprite 0, 0)],
                                     Sprite 0 := [(Group 0, 0), (Group 1, 0)]))"
    unfolding membership_inv_def
    by (auto simp: linked_heap_def empty_heap_def has_key_def intro!: exI[of _ 0])
  from inv_linked_heap r n1 a n2 show ?thesis by blast
qed

text \<open>
  Claim C2, at a sprite that is a member of a group: \<open>s.remove(g)\<close> does not return.
  It takes \<open>s\<close> out of \<open>g.spritedict\<close>, then raises UnboundLocalError at
  \<open>del self.__g[g]\<close>, so \<open>g\<close> stays in the dictionary of \<open>s\<close>.
\<close>

theorem Sprite_remove_member_raises:
  "Sprite_remove 0 (Obj (Group 0)) linked_heap = (Inl UnboundLocalError, linked_heap(Group 0 := []))
   \<and> has_key ((linked_heap(Group 0 := [])) (Sprite 0)) (Group 0)
   \<and> \<not> has_key ((linked_heap(Group 0 := [])) (Group 0)) (Sprite 0)"
  by (simp add: Sprite_remove_single linked_heap_def empty_heap_def delitem_def has_key_def)

text \<open>
  Claim C3, on every group, argument and heap: \<open>Group.remove\<close> raises
  UnboundLocalError at its first test and removes nothing.
\<close>

theorem Group_remove_always_raises:
  "Group_remove j sprite h = (Inl UnboundLocalError, h)"
  unfolding Group_remove_def read_local_def by simp

text \<open>
  Claim C4, on every group, argument and heap: \<open>Group.has\<close> raises
  UnboundLocalError at its first test, returns no truth value and changes nothing.
\<close>

theorem Group_has_always_raises:
  "Group_has j sprite h = (Inl UnboundLocalError, h)"
  unfolding Group_has_def read_local_def by simp

lemma distinct_setitem: "distinct (keys d) \<Longrightarrow> distinct (keys (setitem k d))"
  by (simp add: keys_def setitem_def distinct_update)

lemma distinct_add_internal: "distinct_heap h \<Longrightarrow> distinct_heap (add_internal a k h)"
  by (cases a) (auto simp: distinct_heap_def distinct_setitem)

lemma distinct_upd_setitem: "distinct_heap h \<Longrightarrow> distinct_heap (h(a := setitem k (h a)))"
  by (auto simp: distinct_heap_def distinct_setitem)

lemma distinct_Sprite_add_one: "distinct_heap h \<Longrightarrow> distinct_heap (Sprite_add_one i g h)"
  by (simp add: Sprite_add_one_def Let_def distinct_add_internal distinct_upd_setitem
           del: add_internal.simps)

lemma distinct_Group_add_one: "distinct_heap h \<Longrightarrow> distinct_heap (Group_add_one j s h)"
  by (simp add: Group_add_one_def distinct_add_internal del: add_internal.simps)

lemma distinct_Sprite_add_loop: "distinct_heap h \<Longrightarrow> distinct_heap (Sprite_add_loop i gs h)"
  by (induction gs arbitrary: h) (simp_all add: distinct_Sprite_add_one)

lemma distinct_Group_add_loop: "distinct_heap h \<Longrightarrow> distinct_heap (Group_add_loop j ss h)"
  by (induction ss arbitrary: h)
     (simp_all add: distinct_Group_add_one Group_add_loop_Cons del: Group_add_loop.simps(2))

lemma distinct_Sprite_add: "distinct_heap h \<Longrightarrow> distinct_heap (snd (Sprite_add i a h))"
  by (cases a)
     (auto simp: Sprite_add_def distinct_Sprite_add_one distinct_Sprite_add_loop split: sum.splits)

lemma distinct_Group_add: "distinct_heap h \<Longrightarrow> distinct_heap (snd (Group_add j a h))"
  by (cases a)
     (auto simp: Group_add_def distinct_Group_add_one distinct_Group_add_loop split: sum.splits)

lemma distinct_run_adds: "distinct_heap h \<Longrightarrow> distinct_heap (run_adds cs h)"
proof (induction cs arbitrary: h)
  case Nil
  then show ?case by simp
next
  case (Cons c cs)
  then show ?case by (cases c) (simp_all add: distinct_Sprite_add distinct_Group_add)
qed

text \<open>
  Claim C5. When sprite \<open>s\<close> is already a member of group \<open>g\<close>, adding it again
  leaves the heap, and so both dictionaries, unchanged: \<open>s.add(g)\<close>,
  \<open>s.add([g])\<close> and \<open>g.add([s])\<close> return with the same heap, and \<open>g.add(s)\<close>
  leaves the same heap behind. After any run of \<open>add\<close> calls from the empty heap the
  keys of every group's and every sprite's dictionary are pairwise distinct.
\<close>

theorem add_idempotent:
  assumes "has_key (h (Sprite i)) (Group j)" and "has_key (h (Group j)) (Sprite i)"
  shows "Sprite_add i (Obj (Group j)) h = (Inr (), h)
       \<and> Sprite_add i (Seq [Group j]) h = (Inr (), h)
       \<and> snd (Group_add j (Obj (Sprite i)) h) = h
       \<and> Group_add j (Seq [Sprite i]) h = (Inr (), h)
       \<and> distinct (keys (run_adds cs empty_heap (Group j)))
       \<and> distinct (keys (run_adds cs empty_heap (Sprite i)))"
proof -
  have "distinct_heap empty_heap" by (simp add: distinct_heap_def empty_heap_def keys_def)
  from distinct_run_adds[OF this, of cs]
  have d: "distinct (keys (run_adds cs empty_heap x))" for x by (simp add: distinct_heap_def)
  show ?thesis using assms d
    by (simp add: Sprite_add_def Group_add_def Sprite_add_one_def)
qed

theorem add_idempotent_witness:
  "has_key (linked_heap (Sprite 0)) (Group 0) \<and> has_key (linked_heap (Group 0)) (Sprite 0)
   \<and> Sprite_add 0 (Obj (Group 0)) linked_heap = (Inr (), linked_heap)
   \<and> Group_add 0 (Seq [Sprite 0]) linked_heap = (Inr (), linked_heap)
   \<and> run_adds [Group_add_call 0 (Seq [Sprite 0]), Sprite_add_call 0 (Obj (Group 0))] empty_heap
       = linked_heap"
proof -
  have m: "has_key (linked_heap (Sprite 0)) (Group 0)" "has_key (linked_heap (Group 0)) (Sprite 0)"
    by (simp_all add: linked_heap_def empty_heap_def has_key_def)
  have r: "run_adds [Group_add_call 0 (Seq [Sprite 0]), Sprite_add_call 0 (Obj (Group 0))] empty_heap
       = linked_heap"
    by (auto simp: linked_heap_def empty_heap_def has_key_def Group_add_def Sprite_add_def
          Sprite_add_one_def setitem_def fun_eq_iff)
  show ?thesis using add_idempotent[OF m] m r by simp
qed












section \<open>Properties of surfarray\<close>

lemma findall_dots_index:
  "0 < n \<Longrightarrow> findall_dots n xs = map (\<lambda>k. take n (drop (k * n) xs)) [0..<length xs div n]"
proof (induction n xs rule: findall_dots.induct)
  case (1 n xs)
  show ?case
  proof (cases "length xs < n")
    case True
    with 1 show ?thesis by simp
  next
    case False
    with 1 have ih: "findall_dots n (drop n xs)
        = map (\<lambda>k. take n (drop (k * n) (drop n xs))) [0..<length (drop n xs) div n]"
      by simp
    have d: "length xs div n = Suc (length (drop n xs) div n)"
      using False 1(2) by (simp add: le_div_geq)
    have "map (\<lambda>k. take n (drop (k * n) xs)) [0..<Suc (length (drop n xs) div n)]
        = take n xs # map (\<lambda>k. take n (drop (k * n) (drop n xs))) [0..<length (drop n xs) div n]"
      by (simp add: upt_conv_Cons map_Suc_upt[symmetric] add.commute del: upt_Suc)
    then show ?thesis
      using False 1(2) ih d by (subst findall_dots.simps) simp
  qed
qed


lemma map_upt_Suc: "map f [0..<Suc m] = f 0 # map (\<lambda>k. f (Suc k)) [0..<m]"
  by (simp add: upt_conv_Cons map_Suc_upt[symmetric] del: upt_Suc)

lemma concat_chunks:
  "length xs = m * n \<Longrightarrow> concat (map (\<lambda>k. take n (drop (k * n) xs)) [0..<m]) = xs"
proof (induction m arbitrary: xs)
  case 0
  then show ?case by simp
next
  case (Suc m)
  have "length (drop n xs) = m * n" using Suc.prems by simp
  from Suc.IH[OF this]
  have "concat (map (\<lambda>k. take n (drop (k * n) (drop n xs))) [0..<m]) = drop n xs" .
  then show ?case
    unfolding map_upt_Suc by (simp add: add.commute)
qed

lemma length_concat_const:
  "(\<And>x. x \<in> set xs \<Longrightarrow> length (f x) = c) \<Longrightarrow> length (concat (map f xs)) = length xs * c"
  by (induction xs) simp_all

lemma join_append_sep:
  "xs \<noteq> [] \<Longrightarrow> join sep xs @ sep = concat (map (\<lambda>p. p @ sep) xs)"
  by (induction sep xs rule: join.induct) simp_all

lemma sep_append_join:
  "xs \<noteq> [] \<Longrightarrow> sep @ join sep xs = concat (map (\<lambda>p. sep @ p) xs)"
  by (induction sep xs rule: join.induct) simp_all

lemma length_unpadded_rows:
  assumes "surface_ok surf" and "0 \<le> surf_BytesPerPixel surf"
  shows "int (length (unpadded_rows surf))
           = surf_BytesPerPixel surf * surf_w surf * surf_h surf"
proof -
  let ?a = "nat (surf_w surf * surf_BytesPerPixel surf)"
  let ?p = "nat (surf_pitch surf)"
  let ?h = "nat (surf_h surf)"
  have ap: "?a \<le> ?p" using assms by (auto simp: surface_ok_def intro: nat_mono)
  have pn: "0 \<le> surf_pitch surf"
  proof -
    from assms have w: "0 \<le> surf_w surf"
      and le: "surf_w surf * surf_BytesPerPixel surf \<le> surf_pitch surf"
      by (simp_all add: surface_ok_def)
    from mult_nonneg_nonneg[OF w assms(2)] le show ?thesis by (rule order_trans)
  qed
  have len: "length (surf_pixels surf) = ?p * ?h"
  proof -
    have "int (length (surf_pixels surf)) = int (?p * ?h)"
      using assms pn by (auto simp: surface_ok_def nat_mult_distrib)
    then show ?thesis by (simp only: of_nat_eq_iff)
  qed
  have "length (take ?a (drop (y * ?p) (surf_pixels surf))) = ?a" if "y \<in> set [0..<?h]" for y
  proof -
    from that have "Suc y \<le> ?h" by simp
    then have "Suc y * ?p \<le> ?h * ?p" by (rule mult_le_mono1)
    then have "y * ?p + ?a \<le> length (surf_pixels surf)" using ap len by (simp add: mult.commute)
    then show ?thesis by simp
  qed
  then have "length (unpadded_rows surf) = ?h * ?a"
    unfolding unpadded_rows_def by (subst length_concat_const[where c = ?a]) simp_all
  then have "int (length (unpadded_rows surf)) = int ?h * int ?a" by simp
  also have "\<dots> = surf_BytesPerPixel surf * surf_w surf * surf_h surf"
    using assms by (simp add: surface_ok_def mult.commute mult.left_commute)
  finally show ?thesis .
qed

lemma strip_pitch:
  assumes "surface_ok surf" and "0 \<le> surf_BytesPerPixel surf"
  shows "(if surf_pitch surf - surf_w surf * surf_BytesPerPixel surf > 0
          then concat (findall_group_first
                 (repeat_count (surf_w surf) * repeat_count (surf_BytesPerPixel surf))
                 (repeat_count (surf_pitch surf - surf_w surf * surf_BytesPerPixel surf))
                 (surf_pixels surf))
          else surf_pixels surf) = unpadded_rows surf"
proof -
  let ?a = "nat (surf_w surf * surf_BytesPerPixel surf)"
  let ?p = "nat (surf_pitch surf)"
  let ?h = "nat (surf_h surf)"
  let ?px = "surf_pixels surf"
  have a: "repeat_count (surf_w surf) * repeat_count (surf_BytesPerPixel surf) = ?a"
    using assms by (simp add: repeat_count_def surface_ok_def nat_mult_distrib)
  have ap: "?a \<le> ?p" using assms by (auto simp: surface_ok_def intro: nat_mono)
  have pn: "0 \<le> surf_pitch surf"
  proof -
    from assms have w: "0 \<le> surf_w surf"
      and le: "surf_w surf * surf_BytesPerPixel surf \<le> surf_pitch surf"
      by (simp_all add: surface_ok_def)
    from mult_nonneg_nonneg[OF w assms(2)] le show ?thesis by (rule order_trans)
  qed
  have len: "length ?px = ?h * ?p"
  proof -
    have "int (length ?px) = int (?h * ?p)"
      using assms pn by (auto simp: surface_ok_def nat_mult_distrib mult.commute)
    then show ?thesis by (simp only: of_nat_eq_iff)
  qed
  show ?thesis
  proof (cases "surf_pitch surf - surf_w surf * surf_BytesPerPixel surf > 0")
    case True
    have wb: "0 \<le> surf_w surf * surf_BytesPerPixel surf"
      using assms by (intro mult_nonneg_nonneg) (simp_all add: surface_ok_def)
    have b: "?a + repeat_count (surf_pitch surf - surf_w surf * surf_BytesPerPixel surf) = ?p"
      unfolding repeat_count_def using True wb by (subst nat_add_distrib[symmetric]) simp_all
    have p0: "0 < ?p" using True wb by simp
    have dv: "length ?px div ?p = ?h" using len p0 by simp
    have "concat (findall_group_first ?a
            (repeat_count (surf_pitch surf - surf_w surf * surf_BytesPerPixel surf)) ?px)
          = unpadded_rows surf"
      unfolding findall_group_first_def b findall_dots_index[OF p0] dv unpadded_rows_def
      using ap by (simp add: o_def min_absorb1)
    with True a show ?thesis by simp
  next
    case False
    then have e: "?a = ?p" using assms by (simp add: surface_ok_def)
    have "unpadded_rows surf = ?px"
      unfolding unpadded_rows_def e using concat_chunks[of ?px ?h ?p] len by simp
    with False show ?thesis by simp
  qed
qed

lemma widen_three:
  assumes "0 < length d div 3"
  shows "widen lil 3 d = (UInt32, zero_extended lil d, 4)"
proof -
  let ?f = "\<lambda>k. take 3 (drop (k * 3) d)"
  have f: "findall_dots 3 d = map ?f [0..<length d div 3]"
    by (rule findall_dots_index) simp
  have ne: "map ?f [0..<length d div 3] \<noteq> []" using assms by simp
  show ?thesis
    unfolding widen_def f zero_extended_def
    using join_append_sep[OF ne, of "[0]"] sep_append_join[OF ne, of "[0]"]
    by (simp add: o_def Let_def)
qed

lemma length_zero_extended:
  "length (zero_extended lil d) = (length d div 3) * 4"
proof -
  have "length (let p = take 3 (drop (k * 3) d) in if lil then p @ [0] else 0 # p) = 4"
    if "k \<in> set [0..<length d div 3]" for k
  proof -
    from that have "Suc k \<le> length d div 3" by simp
    then have "Suc k * 3 \<le> length d" by (simp add: less_eq_div_iff_mult_less_eq)
    then show ?thesis by (simp add: Let_def)
  qed
  then show ?thesis
    unfolding zero_extended_def by (subst length_concat_const[where c = 4]) simp_all
qed

lemma array2d_unfold:
  "array2d (Some m) lil surf =
     (if surf_BytesPerPixel surf \<le> 0 \<or> surf_BytesPerPixel surf > 4 then Inl ValueError
      else
        (case widen lil (surf_BytesPerPixel surf)
                (if surf_pitch surf - surf_w surf * surf_BytesPerPixel surf > 0
                 then concat (findall_group_first
                        (repeat_count (surf_w surf) * repeat_count (surf_BytesPerPixel surf))
                        (repeat_count (surf_pitch surf - surf_w surf * surf_BytesPerPixel surf))
                        (surf_pixels surf))
                 else surf_pixels surf) of
           (t, data, bpp) \<Rightarrow>
             if int (length data) \<noteq> bpp * surf_w surf * surf_h surf then Inl AssertionError
             else if m = numpy \<or> m = numarray \<or> m = Numeric
             then Inr \<lparr>arr_shape = [surf_w surf, surf_h surf],
                       arr_strides = [bpp, bpp * surf_w surf],
                       arr_typecode = t, arr_data = data\<rparr>
             else Inl UnboundLocalError))"
  by (simp add: array2d_def check_array_def Let_def split: prod.splits)

lemma widen_other:
  "1 \<le> bpp \<Longrightarrow> bpp \<le> 4 \<Longrightarrow> bpp \<noteq> 3 \<Longrightarrow> widen lil bpp d = (array_typecode bpp, d, bpp)"
  by (auto simp: widen_def array_typecode_def)

text \<open>
  Claim C6, as the code has it. With one of the three array packages set:
  a \<open>BytesPerPixel\<close> of 0 or less, or above 4, raises ValueError. For a well-formed
  surface with \<open>BytesPerPixel\<close> from 1 to 4 (and at least one pixel when it is 3),
  \<open>array2d\<close> returns an array of shape (w, h) with strides (b, b * w) over exactly
  b * w * h bytes, where b is 4 for a 3-byte surface and \<open>BytesPerPixel\<close> otherwise.
  The bytes are the rows without their pitch padding; for a 3-byte surface each pixel
  has one zero byte added, after it on little-endian and before it on big-endian byte
  order.
\<close>

theorem array2d_layout:
  assumes m: "m = numpy \<or> m = numarray \<or> m = Numeric"
  shows "(surf_BytesPerPixel surf \<le> 0 \<or> 4 < surf_BytesPerPixel surf
            \<longrightarrow> array2d (Some m) lil surf = Inl ValueError)
       \<and> (surface_ok surf \<and> 1 \<le> surf_BytesPerPixel surf \<and> surf_BytesPerPixel surf \<le> 4
            \<and> (surf_BytesPerPixel surf = 3 \<longrightarrow> 0 < surf_w surf * surf_h surf)
            \<longrightarrow> array2d (Some m) lil surf = Inr
                  \<lparr>arr_shape = [surf_w surf, surf_h surf],
                   arr_strides = [array_bpp (surf_BytesPerPixel surf),
                                  array_bpp (surf_BytesPerPixel surf) * surf_w surf],
                   arr_typecode = array_typecode (surf_BytesPerPixel surf),
                   arr_data = array_bytes lil surf\<rparr>
              \<and> int (length (array_bytes lil surf))
                  = array_bpp (surf_BytesPerPixel surf) * surf_w surf * surf_h surf)"
proof (intro conjI impI)
  assume "surf_BytesPerPixel surf \<le> 0 \<or> 4 < surf_BytesPerPixel surf"
  then show "array2d (Some m) lil surf = Inl ValueError"
    unfolding array2d_unfold by simp
next
  let ?bpp = "surf_BytesPerPixel surf"
  assume a: "surface_ok surf \<and> 1 \<le> ?bpp \<and> ?bpp \<le> 4
            \<and> (?bpp = 3 \<longrightarrow> 0 < surf_w surf * surf_h surf)"
  then have ok: "surface_ok surf" and b0: "0 \<le> ?bpp" and b1: "1 \<le> ?bpp" and b4: "?bpp \<le> 4"
    by simp_all
  note len = length_unpadded_rows[OF ok b0]
  have r: "array2d (Some m) lil surf = Inr
                  \<lparr>arr_shape = [surf_w surf, surf_h surf],
                   arr_strides = [array_bpp ?bpp, array_bpp ?bpp * surf_w surf],
                   arr_typecode = array_typecode ?bpp,
                   arr_data = array_bytes lil surf\<rparr>
         \<and> int (length (array_bytes lil surf)) = array_bpp ?bpp * surf_w surf * surf_h surf"
  proof (cases "?bpp = 3")
    case False
    have l: "int (length (array_bytes lil surf)) = array_bpp ?bpp * surf_w surf * surf_h surf"
      using False len by (simp add: array_bytes_def array_bpp_def)
    show ?thesis
      unfolding array2d_unfold strip_pitch[OF ok b0] widen_other[OF b1 b4 False]
      using False b1 b4 m l by (simp add: array_bytes_def array_bpp_def)
  next
    case True
    with a have pos: "0 < surf_w surf * surf_h surf" by simp
    have len3: "int (length (unpadded_rows surf)) = 3 * (surf_w surf * surf_h surf)"
      using len True by simp
    then have len3n: "length (unpadded_rows surf) = 3 * nat (surf_w surf * surf_h surf)"
      using pos by (simp add: nat_eq_iff2[symmetric] nat_mult_distrib)
    then have dv: "length (unpadded_rows surf) div 3 = nat (surf_w surf * surf_h surf)"
      by simp
    then have dpos: "0 < length (unpadded_rows surf) div 3" using pos by simp
    have l: "int (length (array_bytes lil surf)) = array_bpp ?bpp * surf_w surf * surf_h surf"
      using True pos
      by (simp add: array_bytes_def array_bpp_def length_zero_extended dv)
    have w: "widen lil ?bpp (unpadded_rows surf)
               = (UInt32, zero_extended lil (unpadded_rows surf), 4)"
      using widen_three[OF dpos] True by simp
    show ?thesis
      unfolding array2d_unfold strip_pitch[OF ok b0] w
      using True m l by (simp add: array_bytes_def array_bpp_def array_typecode_def)
  qed
  from r show "array2d (Some m) lil surf = Inr
                  \<lparr>arr_shape = [surf_w surf, surf_h surf],
                   arr_strides = [array_bpp ?bpp, array_bpp ?bpp * surf_w surf],
                   arr_typecode = array_typecode ?bpp,
                   arr_data = array_bytes lil surf\<rparr>" by simp
  from r show "int (length (array_bytes lil surf)) = array_bpp ?bpp * surf_w surf * surf_h surf"
    by simp
qed

text \<open>
  Claim C6 as stated fails on a surface with 3 bytes per pixel: the array of a 1 x 1
  surface holds 4 bytes, not \<open>BytesPerPixel * w * h = 3\<close>, and its strides are (4, 4),
  not \<open>(BytesPerPixel, BytesPerPixel * w) = (3, 3)\<close>.
\<close>

theorem array2d_three_bytes_counterexample:
  "array2d (Some numpy) True tiny24
     = Inr \<lparr>arr_shape = [1, 1], arr_strides = [4, 4], arr_typecode = UInt32,
            arr_data = [1, 2, 3, 0]\<rparr>
   \<and> int (length [1, 2, 3, 0 :: byte])
       \<noteq> surf_BytesPerPixel tiny24 * surf_w tiny24 * surf_h tiny24
   \<and> [4, 4] \<noteq> [surf_BytesPerPixel tiny24, surf_BytesPerPixel tiny24 * surf_w tiny24]"
  by (simp add: array2d_unfold tiny24_def repeat_count_def findall_group_first_def widen_def)

text \<open>
  On a 3-byte surface without pixels the zero byte is still added once, and the
  assertion on the length of the string fails.
\<close>

lemma array2d_empty24: "array2d (Some numpy) True empty24 = Inl AssertionError"
  by (simp add: array2d_unfold empty24_def widen_def)

theorem array2d_layout_witness:
  "surface_ok tiny24 \<and> 1 \<le> surf_BytesPerPixel tiny24 \<and> surf_BytesPerPixel tiny24 \<le> 4
   \<and> 0 < surf_w tiny24 * surf_h tiny24
   \<and> array2d (Some numpy) True tiny24
        = Inr \<lparr>arr_shape = [1, 1], arr_strides = [4, 4], arr_typecode = UInt32,
               arr_data = array_bytes True tiny24\<rparr>
   \<and> array_bytes True tiny24 = [1, 2, 3, 0]
   \<and> 4 < surf_BytesPerPixel depth5
   \<and> array2d (Some numpy) True depth5 = Inl ValueError"
proof -
  have ok: "surface_ok tiny24" by (simp add: surface_ok_def tiny24_def)
  have b: "array_bytes True tiny24 = [1, 2, 3, 0]"
    by (simp add: array_bytes_def tiny24_def unpadded_rows_def zero_extended_def)
  show ?thesis
    using array2d_layout[of numpy tiny24 True] array2d_layout[of numpy depth5 True] ok b
    by (simp add: tiny24_def depth5_def array_bpp_def array_typecode_def)
qed

lemma blit_array_checks:
  "blit_array (Some m) lil tostring surf array =
     (if \<not> (length (arr_shape array) = 2
             \<or> (length (arr_shape array) = 3 \<and> arr_shape array ! 2 = 3))
      then (Inl ValueError, surf)
      else if length (arr_shape array) = 3 then (Inl NotImplementedError, surf)
      else if surf_BytesPerPixel surf \<le> 0 \<or> surf_BytesPerPixel surf > 4
      then (Inl ValueError, surf)
      else if surf_w surf \<noteq> arr_shape array ! 0 \<or> surf_h surf \<noteq> arr_shape array ! 1
      then (Inl ValueError, surf)
      else (case memmove (surf_pixels surf)
                  (fit_pitch surf (surf_BytesPerPixel surf)
                     (fit_itemsize lil (itemsize_of (arr_typecode array))
                        (surf_BytesPerPixel surf) (tostring array))) of
              None \<Rightarrow> (Inr None, surf)
            | Some px \<Rightarrow> (Inr (Some ()), surf\<lparr>surf_pixels := px\<rparr>)))"
  by (simp add: blit_array_def check_array_def Let_def)

text \<open>
  Claim C8, as the code orders its checks. With an array package set, \<open>blit_array\<close>
  raises ValueError for an array that is neither 2-dimensional nor 3-dimensional with
  last dimension 3; NotImplementedError for every 3-dimensional array with last
  dimension 3, whatever the surface; and, for a 2-dimensional array, ValueError when
  \<open>BytesPerPixel\<close> is 0 or less or above 4, or when the first two dimensions differ
  from the width and height of the surface. In each case the surface is left as it was.
\<close>

theorem blit_array_errors:
  assumes "array_mod = Some m"
  shows "(\<not> (length (arr_shape array) = 2
             \<or> (length (arr_shape array) = 3 \<and> arr_shape array ! 2 = 3))
           \<longrightarrow> blit_array array_mod lil tostring surf array = (Inl ValueError, surf))
       \<and> (length (arr_shape array) = 3 \<and> arr_shape array ! 2 = 3
           \<longrightarrow> blit_array array_mod lil tostring surf array = (Inl NotImplementedError, surf))
       \<and> (length (arr_shape array) = 2
             \<and> (surf_BytesPerPixel surf \<le> 0 \<or> 4 < surf_BytesPerPixel surf)
           \<longrightarrow> blit_array array_mod lil tostring surf array = (Inl ValueError, surf))
       \<and> (length (arr_shape array) = 2
             \<and> (surf_w surf \<noteq> arr_shape array ! 0 \<or> surf_h surf \<noteq> arr_shape array ! 1)
           \<longrightarrow> blit_array array_mod lil tostring surf array = (Inl ValueError, surf))"
  unfolding assms blit_array_checks by simp

theorem blit_array_errors_witness:
  "blit_array (Some numpy) True arr_data tiny32 arr_1 = (Inl ValueError, tiny32)
   \<and> blit_array (Some numpy) True arr_data tiny32 arr_113 = (Inl NotImplementedError, tiny32)
   \<and> length (arr_shape arr_21) = 2 \<and> 4 < surf_BytesPerPixel depth5
   \<and> blit_array (Some numpy) True arr_data depth5 arr_21 = (Inl ValueError, depth5)
   \<and> surf_w tiny32 \<noteq> arr_shape arr_21 ! 0
   \<and> blit_array (Some numpy) True arr_data tiny32 arr_21 = (Inl ValueError, tiny32)"
proof -
  have s: "length (arr_shape arr_1) = 1" "length (arr_shape arr_113) = 3"
    "arr_shape arr_113 ! 2 = 3" "length (arr_shape arr_21) = 2" "arr_shape arr_21 ! 0 = 2"
    by (simp_all add: arr_1_def arr_113_def arr_21_def)
  have t: "surf_BytesPerPixel depth5 = 5" "surf_w tiny32 = 1"
    by (simp_all add: depth5_def tiny32_def)
  show ?thesis
    using blit_array_errors[where array_mod = "Some numpy" and m = numpy and array = arr_1
              and lil = True and tostring = arr_data and surf = tiny32, OF refl]
          blit_array_errors[where array_mod = "Some numpy" and m = numpy and array = arr_113
              and lil = True and tostring = arr_data and surf = tiny32, OF refl]
          blit_array_errors[where array_mod = "Some numpy" and m = numpy and array = arr_21
              and lil = True and tostring = arr_data and surf = depth5, OF refl]
          blit_array_errors[where array_mod = "Some numpy" and m = numpy and array = arr_21
              and lil = True and tostring = arr_data and surf = tiny32, OF refl]
    by (simp add: s t)
qed

text \<open>
  Claim C8 as stated fails: a 3-dimensional array of shape (1, 1, 4) raises ValueError,
  not NotImplementedError; and on a surface with 0 bytes per pixel an array of shape
  (1, 1, 3) raises NotImplementedError, not ValueError.
\<close>

theorem blit_array_three_dim_counterexample:
  "length (arr_shape arr_114) = 3
   \<and> blit_array (Some numpy) True arr_data tiny32 arr_114 = (Inl ValueError, tiny32)
   \<and> surf_BytesPerPixel depth0 = 0
   \<and> blit_array (Some numpy) True arr_data depth0 arr_113 = (Inl NotImplementedError, depth0)"
  by (simp add: blit_array_checks arr_114_def arr_113_def depth0_def)


lemma array2d_two_by_two: "array2d (Some numpy) True two_by_two = Inr two_by_two_array"
  by (simp add: array2d_unfold two_by_two_def two_by_two_array_def repeat_count_def
        findall_group_first_def widen_def)

text \<open>
  Claim C7 fails on the code. On the 2 x 2 surface with pixel rows (1, 2) and (3, 4),
  \<open>array2d\<close> gives the array with strides (1, 2), whose element \<open>[x][y]\<close> is the pixel
  in column x of row y. \<open>blit_array\<close> reads the strides and does not use them: it
  writes \<open>tostring()\<close>, the elements in index order, straight into the rows, which
  become (1, 3) and (2, 4), the transposed picture.
\<close>

theorem round_trip_transposes:
  "round_trip (Some numpy) True tostring_by_index two_by_two
     = (Inr (Some ()), two_by_two\<lparr>surf_pixels := [1, 3, 0, 0, 2, 4, 0, 0]\<rparr>)
   \<and> unpadded_rows two_by_two = [1, 2, 3, 4]
   \<and> unpadded_rows (two_by_two\<lparr>surf_pixels := [1, 3, 0, 0, 2, 4, 0, 0]\<rparr>) = [1, 3, 2, 4]"
proof -
  have b: "blit_array (Some numpy) True tostring_by_index two_by_two two_by_two_array
     = (Inr (Some ()), two_by_two\<lparr>surf_pixels := [1, 3, 0, 0, 2, 4, 0, 0]\<rparr>)"
    by (simp add: blit_array_checks two_by_two_def two_by_two_array_def tostring_by_index_def
          fit_itemsize_def fit_pitch_def repeat_count_def memmove_def Let_def upt_rec
          eval_nat_numeral)
  have u: "unpadded_rows two_by_two = [1, 2, 3, 4]"
    "unpadded_rows (two_by_two\<lparr>surf_pixels := [1, 3, 0, 0, 2, 4, 0, 0]\<rparr>) = [1, 3, 2, 4]"
    by (simp_all add: unpadded_rows_def two_by_two_def upt_rec eval_nat_numeral)
  show ?thesis
    unfolding round_trip_def array2d_two_by_two using b u by simp
qed

text \<open>
  Had \<open>tostring\<close> returned the data as it lies in memory, the same surface would have
  come back unchanged.
\<close>

lemma round_trip_memory:
  "round_trip (Some numpy) True tostring_memory two_by_two = (Inr (Some ()), two_by_two)"
proof -
  have "blit_array (Some numpy) True tostring_memory two_by_two two_by_two_array
     = (Inr (Some ()), two_by_two)"
    by (simp add: blit_array_checks two_by_two_def two_by_two_array_def tostring_memory_def
          fit_itemsize_def fit_pitch_def repeat_count_def memmove_def Let_def eval_nat_numeral)
  then show ?thesis unfolding round_trip_def array2d_two_by_two by simp
qed

section \<open>Properties of UserRect\<close>

lemma UserRect_nonzero_raises: "UserRect_nonzero call rect = Inl NameError"
  by (simp add: UserRect_nonzero_def load_global_def module_names_def builtin_names_def)

lemma map_of_copy_attrs:
  "map_of (copy_attrs as d) k = (if k \<in> set as then Some (rect_attr k) else map_of d k)"
  by (induction as arbitrary: d) (auto simp: update_conv')

text \<open>
  Claim C10, as the code has it. The method \<open>UserRect.__nonzero__\<close> raises NameError
  whenever it runs: it calls \<open>nonzero\<close>, a name that neither the module nor the
  builtins bind. Truth-testing an instance reaches that method, and raises NameError,
  when \<open>dir\<close> of the wrapped rectangle has no \<open>__nonzero__\<close>. When it has one,
  \<open>__init__\<close> has copied it into the instance dictionary, the truth test finds it there
  first, and the result is the truth value of the wrapped rectangle.
\<close>

theorem UserRect_truth_by_dir:
  "UserRect_nonzero call r = Inl NameError
   \<and> UserRect_truth call rect_nonzero (UserRect_init dir_rect r)
       = (if ''__nonzero__'' \<in> set (dir_rect r) then rect_nonzero r else Inl NameError)"
  by (simp add: UserRect_truth_def UserRect_init_def map_of_copy_attrs UserRect_nonzero_raises)

text \<open>
  Claim C10 as stated fails: for a rectangle whose \<open>dir\<close> lists \<open>__nonzero__\<close>,
  truth-testing the \<open>UserRect\<close> around it returns the rectangle's truth value and
  raises nothing.
\<close>

theorem UserRect_truth_counterexample:
  "UserRect_truth no_call sample_nonzero (UserRect_init sample_dir (0, 0, 2, 2)) = Inr True
   \<and> UserRect_truth no_call sample_nonzero (UserRect_init sample_dir (0, 0, 2, 2))
       \<noteq> Inl NameError"
  by (simp add: UserRect_truth_def UserRect_init_def sample_dir_def)

end
